theory Spec2Isabelle
  imports Complex_Main
begin

section \<open>JavaScript values\<close>

text \<open>
  The values \<^verbatim>\<open>lib/prerequisite.js\<close> inspects: fields of the package descriptor and
  of the options bag, and whatever \<^verbatim>\<open>JSON.parse\<close> returns. A number is carried as
  its mathematical value (the program only ever asks whether one is zero); an object is the
  list of its own properties, looked up by key. A property read can also find a member that
  the value inherits from its built-in prototype: \<open>JBuiltin kind key\<close> is the member under
  \<open>key\<close> of the prototype of that kind of value, a function, or, under the key
  \<^verbatim>\<open>__proto__\<close>, the prototype object itself. Descriptor fields and parsed JSON hold no
  such member.
\<close>

datatype js_kind = KObject | KArray | KString | KNumber | KBoolean

datatype js_value =
    JUndefined
  | JNull
  | JBool bool
  | JNumber real
  | JString string
  | JArray "js_value list"
  | JObject "(string \<times> js_value) list"
  | JBuiltin js_kind string

text \<open>What the source throws or rejects with. \<open>ExecaError message stdout stderr\<close> is the
  rejection of the command executor; \<open>TypeError\<close> and \<open>SyntaxError\<close> are raised by the
  engine (their text is the engine's and is not modelled).\<close>

datatype js_error =
    Error string
  | TypeError
  | SyntaxError
  | ExecaError string string string

text \<open>ToBoolean, as applied by \<^verbatim>\<open>!x\<close>, \<^verbatim>\<open>x || y\<close>, \<^verbatim>\<open>x && y\<close> and \<^verbatim>\<open>if (x)\<close>.\<close>

fun truthy :: "js_value \<Rightarrow> bool" where
  "truthy JUndefined = False"
| "truthy JNull = False"
| "truthy (JBool b) = b"
| "truthy (JNumber r) = (r \<noteq> 0)"
| "truthy (JString s) = (s \<noteq> [])"
| "truthy (JArray xs) = True"
| "truthy (JObject kvs) = True"
| "truthy (JBuiltin kind k) = True"

text \<open>The \<^verbatim>\<open>typeof\<close> operator: \<^verbatim>\<open>typeof null\<close> is \<^verbatim>\<open>'object'\<close>, and so is an array's.\<close>

fun js_typeof :: "js_value \<Rightarrow> string" where
  "js_typeof JUndefined = ''undefined''"
| "js_typeof JNull = ''object''"
| "js_typeof (JBool b) = ''boolean''"
| "js_typeof (JNumber r) = ''number''"
| "js_typeof (JString s) = ''string''"
| "js_typeof (JArray xs) = ''object''"
| "js_typeof (JObject kvs) = ''object''"
| "js_typeof (JBuiltin kind k) = (if k = ''__proto__'' then ''object'' else ''function'')"

text \<open>A key that is an array index: a decimal numeral without a leading zero.\<close>

definition is_digit :: "char \<Rightarrow> bool" where
  "is_digit c = (c \<in> set ''0123456789'')"

definition array_index :: "string \<Rightarrow> nat option" where
  "array_index k =
     (if k = [] \<or> \<not> list_all is_digit k \<or> (1 < length k \<and> hd k = CHR ''0'') then None
      else Some (foldl (\<lambda>n c. 10 * n + (of_char c - 48)) 0 k))"

text \<open>
  The string keys of the built-in prototypes, as of Node.js 6 (ECMAScript 2016): what an
  object, an array, a string, a number and a boolean inherit. Every such value inherits the
  members of \<^verbatim>\<open>Object.prototype\<close> as well.
\<close>

definition object_prototype_keys :: "string list" where
  "object_prototype_keys =
     [''constructor'', ''__defineGetter__'', ''__defineSetter__'', ''hasOwnProperty'',
      ''__lookupGetter__'', ''__lookupSetter__'', ''isPrototypeOf'', ''propertyIsEnumerable'',
      ''toString'', ''valueOf'', ''__proto__'', ''toLocaleString'']"

definition array_prototype_keys :: "string list" where
  "array_prototype_keys =
     [''concat'', ''copyWithin'', ''entries'', ''every'', ''fill'', ''filter'', ''find'',
      ''findIndex'', ''forEach'', ''includes'', ''indexOf'', ''join'', ''keys'',
      ''lastIndexOf'', ''map'', ''pop'', ''push'', ''reduce'', ''reduceRight'', ''reverse'',
      ''shift'', ''slice'', ''some'', ''sort'', ''splice'', ''unshift'']"

definition string_prototype_keys :: "string list" where
  "string_prototype_keys =
     [''anchor'', ''big'', ''blink'', ''bold'', ''charAt'', ''charCodeAt'', ''codePointAt'',
      ''concat'', ''endsWith'', ''fixed'', ''fontcolor'', ''fontsize'', ''includes'',
      ''indexOf'', ''italics'', ''lastIndexOf'', ''link'', ''localeCompare'', ''match'',
      ''normalize'', ''repeat'', ''replace'', ''search'', ''slice'', ''small'', ''split'',
      ''startsWith'', ''strike'', ''sub'', ''substr'', ''substring'', ''sup'',
      ''toLocaleLowerCase'', ''toLocaleUpperCase'', ''toLowerCase'', ''toUpperCase'', ''trim'',
      ''trimLeft'', ''trimRight'']"

definition number_prototype_keys :: "string list" where
  "number_prototype_keys = [''toExponential'', ''toFixed'', ''toPrecision'']"

fun prototype_keys :: "js_kind \<Rightarrow> string list" where
  "prototype_keys KObject = object_prototype_keys"
| "prototype_keys KArray = array_prototype_keys @ object_prototype_keys"
| "prototype_keys KString = string_prototype_keys @ object_prototype_keys"
| "prototype_keys KNumber = number_prototype_keys @ object_prototype_keys"
| "prototype_keys KBoolean = object_prototype_keys"

text \<open>What a value of some kind has under a key that is not an own property.\<close>

definition inherited :: "js_kind \<Rightarrow> string \<Rightarrow> js_value" where
  "inherited kind k = (if k \<in> set (prototype_keys kind) then JBuiltin kind k else JUndefined)"

text \<open>
  Property read \<^verbatim>\<open>v.k\<close> / \<^verbatim>\<open>v[k]\<close>: a TypeError on \<^verbatim>\<open>undefined\<close> and \<^verbatim>\<open>null\<close>,
  otherwise the own property under that key, otherwise the inherited member, otherwise
  \<^verbatim>\<open>undefined\<close>. The program never reads a property of a value that it has itself read
  from a property, so the last equation, for a built-in member, is never used by it.
\<close>

fun js_get :: "js_value \<Rightarrow> string \<Rightarrow> js_error + js_value" where
  "js_get JUndefined k = Inl TypeError"
| "js_get JNull k = Inl TypeError"
| "js_get (JObject kvs) k =
     (case map_of kvs k of Some v \<Rightarrow> Inr v | None \<Rightarrow> Inr (inherited KObject k))"
| "js_get (JArray xs) k =
     (if k = ''length'' then Inr (JNumber (real (length xs)))
      else case array_index k of
             Some i \<Rightarrow> (if i < length xs then Inr (xs ! i) else Inr JUndefined)
           | None \<Rightarrow> Inr (inherited KArray k))"
| "js_get (JString s) k =
     (if k = ''length'' then Inr (JNumber (real (length s)))
      else case array_index k of
             Some i \<Rightarrow> (if i < length s then Inr (JString [s ! i]) else Inr JUndefined)
           | None \<Rightarrow> Inr (inherited KString k))"
| "js_get (JBool b) k = Inr (inherited KBoolean k)"
| "js_get (JNumber r) k = Inr (inherited KNumber k)"
| "js_get (JBuiltin kind m) k = Inr JUndefined"

text \<open>\<^verbatim>\<open>String.prototype.includes\<close>: does the needle occur in the text?\<close>

fun contains :: "string \<Rightarrow> string \<Rightarrow> bool" where
  "contains needle [] = (needle = [])"
| "contains needle (c # cs) =
     (take (length needle) (c # cs) = needle \<or> contains needle cs)"

text \<open>
  The method call \<^verbatim>\<open>v.includes(s)\<close> with a string argument: element membership on an
  array, substring search on a string, and a TypeError (``not a function'') on every other
  value, which has no such method. The prototype objects of arrays and of strings, reached
  under \<^verbatim>\<open>__proto__\<close>, are themselves an empty array and an empty string.
\<close>

fun js_includes :: "js_value \<Rightarrow> string \<Rightarrow> js_error + bool" where
  "js_includes (JArray xs) s = Inr (JString s \<in> set xs)"
| "js_includes (JString t) s = Inr (contains s t)"
| "js_includes (JBuiltin kind k) s =
     (if k = ''__proto__'' \<and> kind = KArray then Inr False
      else if k = ''__proto__'' \<and> kind = KString then Inr (contains s [])
      else Inl TypeError)"
| "js_includes v s = Inl TypeError"

text \<open>\<^verbatim>\<open>text.replace(needle, rep)\<close> with a string pattern: the first occurrence only.\<close>

fun replace_first :: "string \<Rightarrow> string \<Rightarrow> string \<Rightarrow> string" where
  "replace_first needle rep [] = (if needle = [] then rep else [])"
| "replace_first needle rep (c # cs) =
     (if take (length needle) (c # cs) = needle then rep @ drop (length needle) (c # cs)
      else c # replace_first needle rep cs)"

text \<open>\<^verbatim>\<open>xs.join(sep)\<close> on an array of strings.\<close>

fun join :: "string \<Rightarrow> string list \<Rightarrow> string" where
  "join sep [] = []"
| "join sep [x] = x"
| "join sep (x # y # ys) = x @ sep @ join sep (y # ys)"

text \<open>The fields \<^verbatim>\<open>err.stdout\<close> and \<^verbatim>\<open>err.stderr\<close> of a caught error: strings on the
  executor's rejection, \<^verbatim>\<open>undefined\<close> (\<open>None\<close>) on any other error.\<close>

fun stdout_of :: "js_error \<Rightarrow> string option" where
  "stdout_of (ExecaError m out err) = Some out"
| "stdout_of e = None"

fun stderr_of :: "js_error \<Rightarrow> string option" where
  "stderr_of (ExecaError m out err) = Some err"
| "stderr_of e = None"

text \<open>A template literal prints a variable that still holds \<^verbatim>\<open>null\<close> as \<^verbatim>\<open>null\<close>.\<close>

fun template :: "string option \<Rightarrow> string" where
  "template None = ''null''"
| "template (Some s) = s"

section \<open>Promises and the command executor\<close>

text \<open>The final state of a promise: it never settles, it resolves with a value, or it
  rejects with an error.\<close>

datatype 'a promise = Pending | Resolved 'a | Rejected js_error

text \<open>\<^verbatim>\<open>p.then(f)\<close>, \<^verbatim>\<open>p.catch(h)\<close> and \<^verbatim>\<open>p.then(f, h)\<close>. A callback that returns
  is \<open>Resolved\<close>, one that throws is \<open>Rejected\<close>, one that returns a promise is that promise.\<close>

fun then_p :: "'a promise \<Rightarrow> ('a \<Rightarrow> 'b promise) \<Rightarrow> 'b promise" where
  "then_p Pending f = Pending"
| "then_p (Resolved x) f = f x"
| "then_p (Rejected e) f = Rejected e"

fun catch_p :: "'a promise \<Rightarrow> (js_error \<Rightarrow> 'a promise) \<Rightarrow> 'a promise" where
  "catch_p Pending h = Pending"
| "catch_p (Resolved x) h = Resolved x"
| "catch_p (Rejected e) h = h e"

fun then2_p :: "'a promise \<Rightarrow> ('a \<Rightarrow> 'b promise) \<Rightarrow> (js_error \<Rightarrow> 'b promise) \<Rightarrow> 'b promise" where
  "then2_p Pending f h = Pending"
| "then2_p (Resolved x) f h = f x"
| "then2_p (Rejected e) f h = h e"

text \<open>
  What running an external command comes to: it exits successfully after some milliseconds
  with its captured stdout, it fails after some milliseconds (message, stdout, stderr), or
  it never finishes.
\<close>

datatype process_run =
    Exits_ok nat string
  | Fails nat string string string
  | Never

text \<open>
  Everything outside the module that a run depends on: the outcome of each command line, the
  process environment, and the engine's \<^verbatim>\<open>JSON.parse\<close> and string conversion.
\<close>

record environment =
  spawn :: "string \<Rightarrow> string list \<Rightarrow> process_run"
  NODE_ENV :: "string option"
  process_version :: string
  JSON_parse :: "string \<Rightarrow> js_error + js_value"
  to_String :: "js_value \<Rightarrow> string"

text \<open>\<^verbatim>\<open>execa.stdout(cmd, args)\<close>. (\<^verbatim>\<open>execa(cmd, args)\<close> differs only in the value it
  resolves with, which its one caller ignores.)\<close>

definition execa_stdout :: "environment \<Rightarrow> string \<Rightarrow> string list \<Rightarrow> string promise" where
  "execa_stdout env cmd args =
     (case spawn env cmd args of
        Exits_ok t out \<Rightarrow> Resolved out
      | Fails t m out err \<Rightarrow> Rejected (ExecaError m out err)
      | Never \<Rightarrow> Pending)"

definition settles_after :: "environment \<Rightarrow> string \<Rightarrow> string list \<Rightarrow> nat option" where
  "settles_after env cmd args =
     (case spawn env cmd args of
        Exits_ok t out \<Rightarrow> Some t
      | Fails t m out err \<Rightarrow> Some t
      | Never \<Rightarrow> None)"

text \<open>
  \<^verbatim>\<open>pTimeout(p, ms, message)\<close>, given when \<open>p\<close> settles: \<open>p\<close> itself if it settles before
  the timer fires, and otherwise a rejection with an error of that message.
\<close>

definition pTimeout :: "'a promise \<Rightarrow> nat option \<Rightarrow> nat \<Rightarrow> string \<Rightarrow> 'a promise" where
  "pTimeout p after ms message =
     (case after of
        None \<Rightarrow> Rejected (Error message)
      | Some t \<Rightarrow> (if t < ms \<and> p \<noteq> Pending then p else Rejected (Error message)))"

section \<open>The inputs of the module\<close>

text \<open>
  Modelled from the spec: the module \<^verbatim>\<open>./version\<close> (the Version Oracle) is not among the
  sources. Its functions are parameters, with the signatures of the spec's section 6;
  nothing is assumed about what they compute.
\<close>

record version_module =
  SEMVER_INCREMENTS :: "string list"
  isValidVersionInput :: "string \<Rightarrow> bool"
  getNewVersion :: "string \<Rightarrow> string \<Rightarrow> string"
  isVersionGreater :: "string \<Rightarrow> string \<Rightarrow> bool"
  isVersionLower :: "string \<Rightarrow> string \<Rightarrow> bool"
  isPrereleaseVersion :: "string option \<Rightarrow> bool"
  satisfies :: "js_value \<Rightarrow> string \<Rightarrow> bool"

text \<open>The package descriptor \<^verbatim>\<open>pkg\<close> and the options \<^verbatim>\<open>opts\<close>, with the fields the
  module reads.\<close>

record package =
  pkg_name :: string
  pkg_version :: string
  pkg_private :: js_value
  pkg_publishConfig :: js_value

record options =
  opt_publish :: js_value
  opt_tag :: js_value
  opt_yarn :: js_value

text \<open>The two variables the checks share (lines 8 and 9): \<^verbatim>\<open>newVersion\<close>, \<open>None\<close> while it
  holds \<^verbatim>\<open>null\<close>, and \<^verbatim>\<open>tagPrefix\<close>.\<close>

record run_context =
  newVersion :: "string option"
  tagPrefix :: string

text \<open>Line 10. Reading \<^verbatim>\<open>.registry\<close> of \<^verbatim>\<open>null\<close> throws.\<close>

definition isExternalRegistry :: "package \<Rightarrow> js_error + bool" where
  "isExternalRegistry pkg =
     (if js_typeof (pkg_publishConfig pkg) = ''object'' then
        (case js_get (pkg_publishConfig pkg) ''registry'' of
           Inl e \<Rightarrow> Inl e
         | Inr registry \<Rightarrow> Inr (js_typeof registry = ''string''))
      else Inr False)"

section \<open>The actions of the seven checks\<close>

text \<open>Ping npm registry (lines 16 to 19).\<close>

definition ping_npm_registry :: "environment \<Rightarrow> string promise" where
  "ping_npm_registry env =
     pTimeout
       (catch_p (execa_stdout env ''npm'' [''ping''])
          (\<lambda>err. Rejected (Error ''Connection to npm registry failed'')))
       (settles_after env ''npm'' [''ping''])
       15000
       ''Connection to npm registry timed out''"

text \<open>Verify user is authenticated (lines 24 to 39). First the callback of lines 32 to 38,
  then the whole chain; the \<^verbatim>\<open>.catch\<close> of line 39 is attached to the promise that the
  callback's \<^verbatim>\<open>.then\<close> returns.\<close>

definition check_collaborators :: "environment \<Rightarrow> string \<Rightarrow> string \<Rightarrow> unit promise" where
  "check_collaborators env username collaborators =
     (case JSON_parse env collaborators of
        Inl e \<Rightarrow> Rejected e
      | Inr json \<Rightarrow>
          (case js_get json username of
             Inl e \<Rightarrow> Rejected e
           | Inr permissions \<Rightarrow>
               (if \<not> truthy permissions then
                  Rejected (Error ''You do not have write permissions required to publish this package.'')
                else
                  (case js_includes permissions ''write'' of
                     Inl e \<Rightarrow> Rejected e
                   | Inr has_write \<Rightarrow>
                       (if \<not> has_write then
                          Rejected (Error ''You do not have write permissions required to publish this package.'')
                        else Resolved ())))))"

definition verify_user_authenticated :: "environment \<Rightarrow> package \<Rightarrow> unit promise" where
  "verify_user_authenticated env pkg =
     then_p
       (catch_p (execa_stdout env ''npm'' [''whoami''])
          (\<lambda>err. Rejected (Error
             (if (case stderr_of err of Some s \<Rightarrow> contains ''ENEEDAUTH'' s | None \<Rightarrow> False)
              then ''You must be logged in to publish packages. Use `npm login` and try again.''
              else ''Authentication error. Use `npm whoami` to troubleshoot.''))))
       (\<lambda>username.
          catch_p
            (then_p (execa_stdout env ''npm'' [''access'', ''ls-collaborators'', pkg_name pkg])
               (check_collaborators env username))
            (\<lambda>err. Resolved ()))"

text \<open>Check git remote (lines 43 to 46).\<close>

definition check_git_remote :: "environment \<Rightarrow> string promise" where
  "check_git_remote env =
     catch_p (execa_stdout env ''git'' [''ls-remote'', ''origin'', ''HEAD''])
       (\<lambda>err. case stderr_of err of
                 None \<Rightarrow> Rejected TypeError
               | Some s \<Rightarrow> Rejected (Error (replace_first ''fatal:'' ''Git fatal error:'' s)))"

text \<open>Validate version (lines 50 to 60): synchronous; the assignment of line 55 stands
  whether or not line 58 throws.\<close>

definition validate_version ::
  "version_module \<Rightarrow> string \<Rightarrow> package \<Rightarrow> run_context \<Rightarrow> unit promise \<times> run_context" where
  "validate_version V input pkg ctx =
     (if \<not> isValidVersionInput V input then
        (Rejected (Error (''Version should be either '' @ join '', '' (SEMVER_INCREMENTS V)
                          @ '', or a valid semver version.'')), ctx)
      else
        let nv = getNewVersion V (pkg_version pkg) input;
            ctx' = ctx\<lparr>newVersion := Some nv\<rparr>
        in if \<not> isVersionGreater V (pkg_version pkg) nv then
             (Rejected (Error (''New version `'' @ nv @ ''` should be higher than current version `''
                               @ pkg_version pkg @ ''`'')), ctx')
           else (Resolved (), ctx'))"

text \<open>Check for pre-release version (lines 65 to 69).\<close>

definition prerelease_message :: string where
  \<open>prerelease_message = ''You must specify a dist-tag using --tag when publishing a pre-release version. This prevents accidentally tagging unstable versions as "latest". https://docs.npmjs.com/cli/dist-tag''\<close>

definition check_prerelease_version ::
  "version_module \<Rightarrow> package \<Rightarrow> options \<Rightarrow> run_context \<Rightarrow> unit promise" where
  "check_prerelease_version V pkg opts ctx =
     (if \<not> truthy (pkg_private pkg) \<and> isPrereleaseVersion V (newVersion ctx) \<and> \<not> truthy (opt_tag opts)
      then Rejected (Error prerelease_message)
      else Resolved ())"

text \<open>Check npm version (lines 74 to 79).\<close>

definition check_npm_version :: "version_module \<Rightarrow> environment \<Rightarrow> unit promise" where
  "check_npm_version V env =
     then_p (execa_stdout env ''npm'' [''version'', ''--json''])
       (\<lambda>json.
          case JSON_parse env json of
            Inl e \<Rightarrow> Rejected e
          | Inr versions \<Rightarrow>
              (case js_get versions ''npm'' of
                 Inl e \<Rightarrow> Rejected e
               | Inr npm \<Rightarrow>
                   (if \<not> satisfies V npm ''>=2.15.8 <3.0.0 || >=3.10.1'' then
                      Rejected (Error (''npm@'' @ to_String env npm
                        @ '' has known issues publishing when running Node.js 6. Please upgrade npm or downgrade Node and publish again. https://github.com/npm/npm/issues/5082''))
                    else Resolved ())))"

text \<open>
  Check git tag existence (lines 83 to 110), in its two stages. Lines 83 to 95 resolve the
  tag prefix: the rejection handler of line 94 is the second argument of a \<^verbatim>\<open>.then\<close> that
  follows both the fetch and the configuration query. The result is the context the next
  stage sees, or \<open>None\<close> when a command never finishes.
\<close>

definition resolve_tag_prefix :: "environment \<Rightarrow> options \<Rightarrow> run_context \<Rightarrow> run_context option" where
  "resolve_tag_prefix env opts ctx =
     (case then_p (execa_stdout env ''git'' [''fetch''])
             (\<lambda>result.
                if truthy (opt_yarn opts)
                then execa_stdout env ''yarn'' [''config'', ''get'', ''version-tag-prefix'']
                else execa_stdout env ''npm'' [''config'', ''get'', ''tag-version-prefix''])
      of
        Pending \<Rightarrow> None
      | Resolved output \<Rightarrow> Some (ctx\<lparr>tagPrefix := output\<rparr>)
      | Rejected err \<Rightarrow> Some ctx)"

text \<open>Lines 96 to 110: the lookup of the tag and the reading of its result.\<close>

definition tag_ref :: "run_context \<Rightarrow> string" where
  "tag_ref ctx = ''refs/tags/'' @ tagPrefix ctx @ template (newVersion ctx)"

definition lookup_git_tag :: "environment \<Rightarrow> run_context \<Rightarrow> unit promise" where
  "lookup_git_tag env ctx =
     then2_p (execa_stdout env ''git'' [''rev-parse'', ''--quiet'', ''--verify'', tag_ref ctx])
       (\<lambda>output.
          if output \<noteq> [] then
            Rejected (Error (''Git tag `'' @ tagPrefix ctx @ template (newVersion ctx)
                             @ ''` already exists.''))
          else Resolved ())
       (\<lambda>err.
          if stdout_of err \<noteq> Some [] \<or> stderr_of err \<noteq> Some [] then Rejected err
          else Resolved ())"

definition check_git_tag_existence ::
  "environment \<Rightarrow> options \<Rightarrow> run_context \<Rightarrow> unit promise \<times> run_context" where
  "check_git_tag_existence env opts ctx =
     (case resolve_tag_prefix env opts ctx of
        None \<Rightarrow> (Pending, ctx)
      | Some ctx' \<Rightarrow> (lookup_git_tag env ctx', ctx'))"

section \<open>The task list and its runner\<close>

text \<open>
  A task as the module hands it to the runner: a title, the two gates and the action. A task
  the source gives no \<^verbatim>\<open>skip\<close> never skips, and one it gives no \<^verbatim>\<open>enabled\<close> is
  always enabled. The runner reads a gate's result for its truth value and ignores the value
  an action resolves with.
\<close>

record check =
  title :: string
  skip :: "run_context \<Rightarrow> bool"
  enabled :: "run_context \<Rightarrow> bool"
  action :: "run_context \<Rightarrow> unit promise \<times> run_context"

definition settled :: "'a promise \<Rightarrow> unit promise" where
  "settled p = then_p p (\<lambda>x. Resolved ())"

text \<open>Lines 12 to 112, given the value of \<^verbatim>\<open>isExternalRegistry\<close>.\<close>

definition tasks ::
  "version_module \<Rightarrow> environment \<Rightarrow> string \<Rightarrow> package \<Rightarrow> options \<Rightarrow> bool \<Rightarrow> check list" where
  "tasks V env input pkg opts external =
     [ \<lparr> title = ''Ping npm registry'',
         skip = (\<lambda>ctx. truthy (pkg_private pkg) \<or> external),
         enabled = (\<lambda>ctx. True),
         action = (\<lambda>ctx. (settled (ping_npm_registry env), ctx)) \<rparr>,
       \<lparr> title = ''Verify user is authenticated'',
         skip = (\<lambda>ctx. NODE_ENV env = Some ''test'' \<or> truthy (pkg_private pkg) \<or> external),
         enabled = (\<lambda>ctx. True),
         action = (\<lambda>ctx. (verify_user_authenticated env pkg, ctx)) \<rparr>,
       \<lparr> title = ''Check git remote'',
         skip = (\<lambda>ctx. False),
         enabled = (\<lambda>ctx. True),
         action = (\<lambda>ctx. (settled (check_git_remote env), ctx)) \<rparr>,
       \<lparr> title = ''Validate version'',
         skip = (\<lambda>ctx. False),
         enabled = (\<lambda>ctx. True),
         action = validate_version V input pkg \<rparr>,
       \<lparr> title = ''Check for pre-release version'',
         skip = (\<lambda>ctx. False),
         enabled = (\<lambda>ctx. truthy (opt_publish opts)),
         action = (\<lambda>ctx. (check_prerelease_version V pkg opts ctx, ctx)) \<rparr>,
       \<lparr> title = ''Check npm version'',
         skip = (\<lambda>ctx. isVersionLower V ''6.0.0'' (process_version env)),
         enabled = (\<lambda>ctx. True),
         action = (\<lambda>ctx. (check_npm_version V env, ctx)) \<rparr>,
       \<lparr> title = ''Check git tag existence'',
         skip = (\<lambda>ctx. False),
         enabled = (\<lambda>ctx. True),
         action = check_git_tag_existence env opts \<rparr> ]"

text \<open>The exported function (lines 7 to 115): it throws while computing
  \<^verbatim>\<open>isExternalRegistry\<close>, or returns the task list together with the initial values of the
  two shared variables.\<close>

definition module_exports ::
  "version_module \<Rightarrow> environment \<Rightarrow> string \<Rightarrow> package \<Rightarrow> options
     \<Rightarrow> js_error + (check list \<times> run_context)" where
  "module_exports V env input pkg opts =
     (case isExternalRegistry pkg of
        Inl e \<Rightarrow> Inl e
      | Inr external \<Rightarrow>
          Inr (tasks V env input pkg opts external, \<lparr> newVersion = None, tagPrefix = ''v'' \<rparr>))"

text \<open>
  What a run reports: success, or the failure of one check, named by its title, with the
  error its action raised. A run whose current action never settles has no outcome
  (\<open>None\<close>). Besides the outcome the result holds the context as the run left it and, in
  order, the checks whose action was invoked, each with the context it saw.
\<close>

datatype outcome = Success | Failure string js_error

record run_result =
  outcome :: "outcome option"
  final :: run_context
  invoked :: "(string \<times> run_context) list"

text \<open>
  Modelled from the spec: the runner (the \<^verbatim>\<open>listr\<close> package, to which the exported
  function hands its task list) is not among the sources. Following section 4.2 of the spec:
  the checks are taken in order; a check whose \<^verbatim>\<open>skip\<close> holds or whose \<^verbatim>\<open>enabled\<close>
  fails is passed over without running its action; otherwise the action runs and is awaited;
  a rejection stops the run with a failure that names the check; a success moves on to the
  next check with the context as the action left it.
\<close>

fun run :: "check list \<Rightarrow> run_context \<Rightarrow> run_result" where
  "run [] ctx = \<lparr> outcome = Some Success, final = ctx, invoked = [] \<rparr>"
| "run (c # cs) ctx =
     (if skip c ctx then run cs ctx
      else if \<not> enabled c ctx then run cs ctx
      else
        (case action c ctx of
           (Resolved u, ctx') \<Rightarrow>
             (let r = run cs ctx' in r\<lparr>invoked := (title c, ctx) # invoked r\<rparr>)
         | (Rejected e, ctx') \<Rightarrow>
             \<lparr> outcome = Some (Failure (title c) e), final = ctx', invoked = [(title c, ctx)] \<rparr>
         | (Pending, ctx') \<Rightarrow>
             \<lparr> outcome = None, final = ctx', invoked = [(title c, ctx)] \<rparr>))"

section \<open>A concrete run\<close>

text \<open>
  One concrete set of inputs, on which the statements below are evaluated: a Version Oracle
  given by tables, the package \<^verbatim>\<open>demo-package\<close> at version 1.2.3, and an executor in
  which every command of the pipeline succeeds, the registry lists the user \<^verbatim>\<open>alice\<close>
  with read access only, and the tag \<^verbatim>\<open>v1.2.4\<close> does not exist yet.
\<close>

definition scenario_version :: version_module where
  "scenario_version =
     \<lparr> SEMVER_INCREMENTS =
         [''patch'', ''minor'', ''major'', ''prepatch'', ''preminor'', ''premajor'', ''prerelease''],
       isValidVersionInput = (\<lambda>i. i = ''patch'' \<or> i = ''1.0.0'' \<or> i = ''2.0.0-beta.1''),
       getNewVersion = (\<lambda>current i. if i = ''patch'' \<and> current = ''1.2.3'' then ''1.2.4'' else i),
       isVersionGreater =
         (\<lambda>old new. old = ''1.2.3'' \<and> (new = ''1.2.4'' \<or> new = ''2.0.0-beta.1'')),
       isVersionLower = (\<lambda>a b. a = ''6.0.0'' \<and> b = ''v4.8.0''),
       isPrereleaseVersion = (\<lambda>v. v = Some ''2.0.0-beta.1''),
       satisfies = (\<lambda>v range. v = JString ''3.10.8'') \<rparr>"

definition collaborators_json :: string where
  \<open>collaborators_json = ''{"alice":["read"],"bob":["read","write"]}''\<close>

definition npm_versions_json :: string where
  \<open>npm_versions_json = ''{"npm":"3.10.8","node":"8.9.0"}''\<close>

definition scenario_JSON_parse :: "string \<Rightarrow> js_error + js_value" where
  "scenario_JSON_parse s =
     (if s = collaborators_json then
        Inr (JObject [(''alice'', JArray [JString ''read'']),
                      (''bob'', JArray [JString ''read'', JString ''write''])])
      else if s = npm_versions_json then
        Inr (JObject [(''npm'', JString ''3.10.8''), (''node'', JString ''8.9.0'')])
      else Inl SyntaxError)"

definition scenario_spawn :: "string \<Rightarrow> string list \<Rightarrow> process_run" where
  "scenario_spawn cmd args =
     (if cmd = ''npm'' \<and> args = [''ping''] then Exits_ok 120 []
      else if cmd = ''npm'' \<and> args = [''whoami''] then Exits_ok 300 ''alice''
      else if cmd = ''npm'' \<and> args = [''access'', ''ls-collaborators'', ''demo-package'']
        then Exits_ok 250 collaborators_json
      else if cmd = ''git'' \<and> args = [''ls-remote'', ''origin'', ''HEAD'']
        then Exits_ok 400 ''0a1b2c HEAD''
      else if cmd = ''npm'' \<and> args = [''version'', ''--json''] then Exits_ok 90 npm_versions_json
      else if cmd = ''git'' \<and> args = [''fetch''] then Exits_ok 800 []
      else if cmd = ''npm'' \<and> args = [''config'', ''get'', ''tag-version-prefix'']
        then Exits_ok 70 ''v''
      else if cmd = ''git'' \<and> args = [''rev-parse'', ''--quiet'', ''--verify'', ''refs/tags/v1.2.4'']
        then Fails 30 ''Command failed: git rev-parse'' [] []
      else Fails 10 ''Command failed'' [] ''not found'')"

definition scenario_env :: environment where
  "scenario_env =
     \<lparr> spawn = scenario_spawn,
       NODE_ENV = None,
       process_version = ''v8.9.0'',
       JSON_parse = scenario_JSON_parse,
       to_String = (\<lambda>v. case v of JString s \<Rightarrow> s | _ \<Rightarrow> ''undefined'') \<rparr>"

definition scenario_pkg :: package where
  "scenario_pkg =
     \<lparr> pkg_name = ''demo-package'', pkg_version = ''1.2.3'',
       pkg_private = JUndefined, pkg_publishConfig = JUndefined \<rparr>"

definition scenario_opts :: options where
  "scenario_opts = \<lparr> opt_publish = JBool True, opt_tag = JUndefined, opt_yarn = JBool False \<rparr>"

definition initial_context :: run_context where
  "initial_context = \<lparr> newVersion = None, tagPrefix = ''v'' \<rparr>"

text \<open>Variations of the concrete run: the context once the version has been validated, the
  same environment with one command line answering differently, and a private package.\<close>

definition validated_context :: run_context where
  "validated_context = \<lparr> newVersion = Some ''1.2.4'', tagPrefix = ''v'' \<rparr>"

definition with_command ::
  "string \<Rightarrow> string list \<Rightarrow> process_run \<Rightarrow> environment \<Rightarrow> environment" where
  "with_command cmd args r env =
     env\<lparr>spawn := (\<lambda>c a. if c = cmd \<and> a = args then r else spawn env c a)\<rparr>"

definition private_pkg :: package where
  "private_pkg = scenario_pkg\<lparr>pkg_private := JBool True\<rparr>"

definition scenario_tasks :: "options \<Rightarrow> check list" where
  "scenario_tasks opts = tasks scenario_version scenario_env ''patch'' scenario_pkg opts False"

section \<open>Properties of the runner\<close>

lemmas scenario_defs = scenario_env_def scenario_spawn_def scenario_JSON_parse_def
  scenario_pkg_def scenario_opts_def scenario_version_def collaborators_json_def
  npm_versions_json_def initial_context_def validated_context_def with_command_def
  private_pkg_def

text \<open>Running a list of checks in two parts: the second part starts where the first one
  succeeded, and is not run at all when the first one failed or hangs.\<close>

lemma run_append:
  "run (xs @ ys) ctx =
     (if outcome (run xs ctx) = Some Success
      then (run ys (final (run xs ctx)))
             \<lparr>invoked := invoked (run xs ctx) @ invoked (run ys (final (run xs ctx)))\<rparr>
      else run xs ctx)"
proof (induction xs arbitrary: ctx)
  case Nil
  show ?case by simp
next
  case (Cons c cs)
  show ?case
  proof (cases "skip c ctx \<or> \<not> enabled c ctx")
    case True
    then show ?thesis using Cons.IH [of ctx] by auto
  next
    case False
    obtain p ctx' where a: "action c ctx = (p, ctx')" by (cases "action c ctx")
    show ?thesis
    proof (cases p)
      case Pending
      with False a show ?thesis by simp
    next
      case (Resolved u)
      with False a Cons.IH [of ctx'] show ?thesis by (simp add: Let_def)
    next
      case (Rejected e)
      with False a show ?thesis by simp
    qed
  qed
qed

text \<open>A property of the context that every action keeps holds of the final context and of
  every context an action saw.\<close>

lemma run_invariant:
  assumes "\<And>c x. c \<in> set cs \<Longrightarrow> P x \<Longrightarrow> P (snd (action c x))" and "P ctx"
  shows "P (final (run cs ctx)) \<and> (\<forall>e \<in> set (invoked (run cs ctx)). P (snd e))"
  using assms
proof (induction cs arbitrary: ctx)
  case Nil
  then show ?case by simp
next
  case (Cons c cs)
  have step: "P (snd (action c ctx))" using Cons.prems by simp
  have ih: "\<And>x. P x \<Longrightarrow> P (final (run cs x)) \<and> (\<forall>e \<in> set (invoked (run cs x)). P (snd e))"
    using Cons.IH Cons.prems(1) by simp
  obtain p ctx' where a: "action c ctx = (p, ctx')" by (cases "action c ctx")
  with step have p': "P ctx'" by simp
  show ?case
    using ih [OF Cons.prems(2)] ih [OF p'] p' Cons.prems(2) a
    by (cases p) (auto simp add: Let_def)
qed

text \<open>Only checks of the list are invoked, and none more often than it is listed.\<close>

lemma run_invoked_titles: "fst ` set (invoked (run cs ctx)) \<subseteq> title ` set cs"
proof (induction cs arbitrary: ctx)
  case Nil
  show ?case by simp
next
  case (Cons c cs)
  obtain p ctx' where a: "action c ctx = (p, ctx')" by (cases "action c ctx")
  show ?case
    using Cons.IH [of ctx] Cons.IH [of ctx'] a
    by (cases p) (auto simp add: Let_def)
qed

lemma run_invoked_count:
  "length (filter (\<lambda>e. fst e = t) (invoked (run cs ctx)))
     \<le> length (filter (\<lambda>c. title c = t) cs)"
proof (induction cs arbitrary: ctx)
  case Nil
  show ?case by simp
next
  case (Cons c cs)
  obtain p ctx' where a: "action c ctx = (p, ctx')" by (cases "action c ctx")
  show ?case
    using Cons.IH [of ctx] Cons.IH [of ctx'] a
    by (cases p) (auto simp add: Let_def le_SucI)
qed

section \<open>Verify user is authenticated\<close>

lemma check_collaborators_settles: "check_collaborators env username collaborators \<noteq> Pending"
  by (simp add: check_collaborators_def split: sum.splits)

lemma catch_all_resolves: "p \<noteq> Pending \<Longrightarrow> catch_p p (\<lambda>err. Resolved ()) = Resolved ()"
  by (cases p) simp_all

text \<open>Once \<^verbatim>\<open>npm whoami\<close> has succeeded, the check succeeds whatever the collaborator
  lookup answers, as long as it answers at all.\<close>

lemma verify_user_authenticated_after_whoami:
  assumes "spawn env ''npm'' [''whoami''] = Exits_ok t username"
    and "spawn env ''npm'' [''access'', ''ls-collaborators'', pkg_name pkg] \<noteq> Never"
  shows "verify_user_authenticated env pkg = Resolved ()"
proof (cases "spawn env ''npm'' [''access'', ''ls-collaborators'', pkg_name pkg]")
  case (Exits_ok t' collaborators)
  with assms(1) show ?thesis
    by (simp add: verify_user_authenticated_def execa_stdout_def
        catch_all_resolves [OF check_collaborators_settles])
next
  case (Fails t' m out err)
  with assms(1) show ?thesis
    by (simp add: verify_user_authenticated_def execa_stdout_def)
next
  case Never
  with assms(2) show ?thesis by simp
qed

text \<open>
  C1. The claim: after a successful whoami, a user who is absent from the collaborator
  mapping or lacks \<^verbatim>\<open>write\<close> makes the check fail with the write-permission message, and
  only a failure of the lookup command itself is swallowed. On the code this does not hold.
  In the concrete run \<^verbatim>\<open>npm whoami\<close> answers \<^verbatim>\<open>alice\<close>, the lookup succeeds and lists
  \<^verbatim>\<open>alice\<close> with \<^verbatim>\<open>read\<close> only; the callback of lines 32 to 38 throws the
  write-permission error, and the \<^verbatim>\<open>.catch\<close> of line 39, which follows that callback,
  absorbs it: the check succeeds.
\<close>

theorem permission_failure_absorbed:
  "spawn scenario_env ''npm'' [''whoami''] = Exits_ok 300 ''alice''
   \<and> spawn scenario_env ''npm'' [''access'', ''ls-collaborators'', pkg_name scenario_pkg]
       = Exits_ok 250 collaborators_json
   \<and> check_collaborators scenario_env ''alice'' collaborators_json
       = Rejected (Error ''You do not have write permissions required to publish this package.'')
   \<and> verify_user_authenticated scenario_env scenario_pkg = Resolved ()"
  by (simp add: verify_user_authenticated_def check_collaborators_def execa_stdout_def
      scenario_defs)

section \<open>Validate version\<close>

text \<open>
  C3. An input that the oracle's \<^verbatim>\<open>isValidVersionInput\<close> rejects makes the check fail
  with the message that enumerates \<^verbatim>\<open>SEMVER_INCREMENTS\<close>, and leaves the context as it
  was. For every other input the new version is \<^verbatim>\<open>getNewVersion(pkg.version, input)\<close>
  and is stored in the context; the check then succeeds when
  \<^verbatim>\<open>isVersionGreater(pkg.version, newVersion)\<close> holds, and otherwise fails with a message
  that names the new and the current version.
\<close>

theorem validate_version_policy:
  "(\<not> isValidVersionInput V input \<longrightarrow>
      validate_version V input pkg ctx =
        (Rejected (Error (''Version should be either '' @ join '', '' (SEMVER_INCREMENTS V)
                          @ '', or a valid semver version.'')), ctx))
   \<and> (isValidVersionInput V input \<longrightarrow>
        snd (validate_version V input pkg ctx)
          = ctx\<lparr>newVersion := Some (getNewVersion V (pkg_version pkg) input)\<rparr>
        \<and> fst (validate_version V input pkg ctx)
          = (if isVersionGreater V (pkg_version pkg) (getNewVersion V (pkg_version pkg) input)
             then Resolved ()
             else Rejected (Error (''New version `'' @ getNewVersion V (pkg_version pkg) input
                     @ ''` should be higher than current version `'' @ pkg_version pkg @ ''`''))))"
  by (simp add: validate_version_def Let_def)

text \<open>The three cases on the concrete oracle: an input it rejects, \<^verbatim>\<open>patch\<close> on 1.2.3
  (scenario A of the spec), and \<^verbatim>\<open>1.0.0\<close> on 1.2.3 (scenario B).\<close>

theorem validate_version_policy_witness:
  "\<not> isValidVersionInput scenario_version ''newest''
   \<and> validate_version scenario_version ''newest'' scenario_pkg initial_context =
       (Rejected (Error ''Version should be either patch, minor, major, prepatch, preminor, premajor, prerelease, or a valid semver version.''),
        initial_context)
   \<and> isValidVersionInput scenario_version ''patch''
   \<and> validate_version scenario_version ''patch'' scenario_pkg initial_context =
       (Resolved (), validated_context)
   \<and> isValidVersionInput scenario_version ''1.0.0''
   \<and> validate_version scenario_version ''1.0.0'' scenario_pkg initial_context =
       (Rejected (Error ''New version `1.0.0` should be higher than current version `1.2.3`''),
        \<lparr>newVersion = Some ''1.0.0'', tagPrefix = ''v''\<rparr>)"
  using validate_version_policy [of scenario_version "''newest''" scenario_pkg initial_context]
    validate_version_policy [of scenario_version "''patch''" scenario_pkg initial_context]
    validate_version_policy [of scenario_version "''1.0.0''" scenario_pkg initial_context]
  by (simp add: scenario_defs prod_eq_iff)

section \<open>Check for pre-release version\<close>

text \<open>
  C4, as claimed: the check is skipped when the package is private, and when it runs it
  fails exactly if the new version is a pre-release and no dist-tag was given. The task of
  the source has no \<^verbatim>\<open>skip\<close>; the test of \<^verbatim>\<open>pkg.private\<close> stands inside its action.
  For a private package with publish requested, a pre-release version and no dist-tag,
  neither gate excludes the check, and its action, run, does not fail.
\<close>

theorem prerelease_check_runs_when_private:
  "\<not> skip (tasks scenario_version scenario_env ''2.0.0-beta.1'' private_pkg scenario_opts False ! 4)
          \<lparr>newVersion = Some ''2.0.0-beta.1'', tagPrefix = ''v''\<rparr>
   \<and> enabled (tasks scenario_version scenario_env ''2.0.0-beta.1'' private_pkg scenario_opts False ! 4)
          \<lparr>newVersion = Some ''2.0.0-beta.1'', tagPrefix = ''v''\<rparr>
   \<and> truthy (pkg_private private_pkg)
   \<and> truthy (opt_publish scenario_opts)
   \<and> isPrereleaseVersion scenario_version (Some ''2.0.0-beta.1'')
   \<and> \<not> truthy (opt_tag scenario_opts)
   \<and> fst (action (tasks scenario_version scenario_env ''2.0.0-beta.1'' private_pkg scenario_opts False ! 4)
          \<lparr>newVersion = Some ''2.0.0-beta.1'', tagPrefix = ''v''\<rparr>) = Resolved ()"
  by (simp add: tasks_def check_prerelease_version_def scenario_defs)

text \<open>
  C4, amended. The fifth task is never skipped and is enabled exactly when publish was
  requested. Its action leaves the context alone and fails, with the message that asks for
  \<^verbatim>\<open>--tag\<close>, exactly when the package is not private, the oracle reports the new version
  as a pre-release and no dist-tag was given; in every other case, a private package among
  them, it succeeds.
\<close>

theorem prerelease_check_policy:
  "skip (tasks V env input pkg opts external ! 4) ctx = False
   \<and> enabled (tasks V env input pkg opts external ! 4) ctx = truthy (opt_publish opts)
   \<and> action (tasks V env input pkg opts external ! 4) ctx =
       (if \<not> truthy (pkg_private pkg) \<and> isPrereleaseVersion V (newVersion ctx)
           \<and> \<not> truthy (opt_tag opts)
        then Rejected (Error prerelease_message) else Resolved (), ctx)"
  by (simp add: tasks_def check_prerelease_version_def)

text \<open>Scenario C of the spec: version 2.0.0-beta.1, publish requested, no dist-tag, package
  not private.\<close>

theorem prerelease_check_policy_witness:
  "enabled (tasks scenario_version scenario_env ''2.0.0-beta.1'' scenario_pkg scenario_opts False ! 4)
      \<lparr>newVersion = Some ''2.0.0-beta.1'', tagPrefix = ''v''\<rparr>
   \<and> action (tasks scenario_version scenario_env ''2.0.0-beta.1'' scenario_pkg scenario_opts False ! 4)
        \<lparr>newVersion = Some ''2.0.0-beta.1'', tagPrefix = ''v''\<rparr>
      = (Rejected (Error prerelease_message), \<lparr>newVersion = Some ''2.0.0-beta.1'', tagPrefix = ''v''\<rparr>)"
  using prerelease_check_policy [of scenario_version scenario_env "''2.0.0-beta.1''" scenario_pkg
      scenario_opts False "\<lparr>newVersion = Some ''2.0.0-beta.1'', tagPrefix = ''v''\<rparr>"]
  by (simp add: scenario_defs)

section \<open>Check git tag existence\<close>

text \<open>
  C8. With the fetch done, a failing configuration query leaves the context, and with it the
  prefix \<^verbatim>\<open>v\<close>, as it was, and the check goes on to the tag lookup; a succeeding query
  makes its output the prefix the lookup uses. The query is yarn's when \<^verbatim>\<open>opts.yarn\<close>
  is set and npm's otherwise.
\<close>

theorem tag_prefix_best_effort:
  assumes "spawn env ''git'' [''fetch''] = Exits_ok t0 out0"
    and "query = (if truthy (opt_yarn opts)
                  then spawn env ''yarn'' [''config'', ''get'', ''version-tag-prefix'']
                  else spawn env ''npm'' [''config'', ''get'', ''tag-version-prefix''])"
    and "tagPrefix ctx = ''v''"
  shows "(query = Fails t m out err \<longrightarrow>
            resolve_tag_prefix env opts ctx = Some ctx
            \<and> check_git_tag_existence env opts ctx = (lookup_git_tag env ctx, ctx)
            \<and> tagPrefix (snd (check_git_tag_existence env opts ctx)) = ''v'')
       \<and> (query = Exits_ok t' output \<longrightarrow>
            resolve_tag_prefix env opts ctx = Some (ctx\<lparr>tagPrefix := output\<rparr>)
            \<and> check_git_tag_existence env opts ctx
                = (lookup_git_tag env (ctx\<lparr>tagPrefix := output\<rparr>), ctx\<lparr>tagPrefix := output\<rparr>))"
  using assms
  by (auto simp add: check_git_tag_existence_def resolve_tag_prefix_def execa_stdout_def)

text \<open>A query that fails, and one that answers \<^verbatim>\<open>release-\<close>.\<close>

theorem tag_prefix_best_effort_witness:
  "spawn (with_command ''npm'' [''config'', ''get'', ''tag-version-prefix'']
            (Fails 40 ''Command failed: npm config'' [] ''npm ERR!'') scenario_env)
      ''git'' [''fetch''] = Exits_ok 800 []
   \<and> tagPrefix validated_context = ''v''
   \<and> resolve_tag_prefix
        (with_command ''npm'' [''config'', ''get'', ''tag-version-prefix'']
            (Fails 40 ''Command failed: npm config'' [] ''npm ERR!'') scenario_env)
        scenario_opts validated_context = Some validated_context
   \<and> check_git_tag_existence
        (with_command ''npm'' [''config'', ''get'', ''tag-version-prefix'']
            (Fails 40 ''Command failed: npm config'' [] ''npm ERR!'') scenario_env)
        scenario_opts validated_context = (Resolved (), validated_context)
   \<and> resolve_tag_prefix
        (with_command ''npm'' [''config'', ''get'', ''tag-version-prefix'']
            (Exits_ok 40 ''release-'') scenario_env)
        scenario_opts validated_context = Some \<lparr>newVersion = Some ''1.2.4'', tagPrefix = ''release-''\<rparr>"
  using tag_prefix_best_effort [of
      "with_command ''npm'' [''config'', ''get'', ''tag-version-prefix'']
         (Fails 40 ''Command failed: npm config'' [] ''npm ERR!'') scenario_env"
      800 "[]" "Fails 40 ''Command failed: npm config'' [] ''npm ERR!''" scenario_opts
      validated_context 40 "''Command failed: npm config''" "[]" "''npm ERR!''"]
    tag_prefix_best_effort [of
      "with_command ''npm'' [''config'', ''get'', ''tag-version-prefix'']
         (Exits_ok 40 ''release-'') scenario_env"
      800 "[]" "Exits_ok 40 ''release-''" scenario_opts validated_context _ _ _ _ 40 "''release-''"]
  by (simp add: scenario_defs lookup_git_tag_def tag_ref_def execa_stdout_def)

text \<open>
  C2. Once the prefix stage has settled, with context \<open>ctx'\<close>, the check is decided by the
  lookup of \<^verbatim>\<open>refs/tags/{tagPrefix}{newVersion}\<close>: a lookup that succeeds with non-empty
  output fails the check with the message that the tag \<^verbatim>\<open>{tagPrefix}{newVersion}\<close>
  already exists; a lookup that fails with empty stdout and empty stderr lets the check
  succeed; a lookup that fails with output on either stream fails the check with that very
  error.
\<close>

theorem git_tag_lookup_policy:
  assumes "resolve_tag_prefix env opts ctx = Some ctx'"
    and "lookup = spawn env ''git'' [''rev-parse'', ''--quiet'', ''--verify'',
                    ''refs/tags/'' @ tagPrefix ctx' @ template (newVersion ctx')]"
  shows "(lookup = Exits_ok t out \<and> out \<noteq> [] \<longrightarrow>
            check_git_tag_existence env opts ctx =
              (Rejected (Error (''Git tag `'' @ tagPrefix ctx' @ template (newVersion ctx')
                                @ ''` already exists.'')), ctx'))
       \<and> (lookup = Fails t' m [] [] \<longrightarrow>
            check_git_tag_existence env opts ctx = (Resolved (), ctx'))
       \<and> (lookup = Fails t'' m' out' err' \<and> (out' \<noteq> [] \<or> err' \<noteq> []) \<longrightarrow>
            check_git_tag_existence env opts ctx = (Rejected (ExecaError m' out' err'), ctx'))"
  using assms
  by (auto simp add: check_git_tag_existence_def lookup_git_tag_def tag_ref_def execa_stdout_def)

text \<open>Scenarios D and E of the spec for the tag \<^verbatim>\<open>v1.2.4\<close>, and a lookup that fails with
  a message on stderr.\<close>

theorem git_tag_lookup_policy_witness:
  "resolve_tag_prefix scenario_env scenario_opts validated_context = Some validated_context
   \<and> spawn scenario_env ''git'' [''rev-parse'', ''--quiet'', ''--verify'', ''refs/tags/v1.2.4'']
       = Fails 30 ''Command failed: git rev-parse'' [] []
   \<and> check_git_tag_existence scenario_env scenario_opts validated_context
       = (Resolved (), validated_context)
   \<and> check_git_tag_existence
        (with_command ''git'' [''rev-parse'', ''--quiet'', ''--verify'', ''refs/tags/v1.2.4'']
           (Exits_ok 30 ''abcd1234'') scenario_env)
        scenario_opts validated_context
       = (Rejected (Error ''Git tag `v1.2.4` already exists.''), validated_context)
   \<and> check_git_tag_existence
        (with_command ''git'' [''rev-parse'', ''--quiet'', ''--verify'', ''refs/tags/v1.2.4'']
           (Fails 30 ''Command failed: git rev-parse'' [] ''fatal: not a git repository'') scenario_env)
        scenario_opts validated_context
       = (Rejected (ExecaError ''Command failed: git rev-parse'' [] ''fatal: not a git repository''),
          validated_context)"
  using git_tag_lookup_policy [of scenario_env scenario_opts validated_context validated_context
      "Fails 30 ''Command failed: git rev-parse'' [] []" _ _ 30 "''Command failed: git rev-parse''"]
    git_tag_lookup_policy [of
      "with_command ''git'' [''rev-parse'', ''--quiet'', ''--verify'', ''refs/tags/v1.2.4'']
         (Exits_ok 30 ''abcd1234'') scenario_env"
      scenario_opts validated_context validated_context "Exits_ok 30 ''abcd1234''" 30 "''abcd1234''"]
    git_tag_lookup_policy [of
      "with_command ''git'' [''rev-parse'', ''--quiet'', ''--verify'', ''refs/tags/v1.2.4'']
         (Fails 30 ''Command failed: git rev-parse'' [] ''fatal: not a git repository'') scenario_env"
      scenario_opts validated_context validated_context
      "Fails 30 ''Command failed: git rev-parse'' [] ''fatal: not a git repository''" _ _ _ _
      30 "''Command failed: git rev-parse''" "[]" "''fatal: not a git repository''"]
  by (simp add: scenario_defs resolve_tag_prefix_def execa_stdout_def)

section \<open>Ping npm registry\<close>

text \<open>
  C7. For the task list the exported function returns, the first check is skipped exactly
  when \<^verbatim>\<open>pkg.private\<close> is truthy or \<^verbatim>\<open>isExternalRegistry\<close> is true. Its action never
  stays pending: a \<^verbatim>\<open>npm ping\<close> that fails before 15000 ms fails the check with
  \<^verbatim>\<open>Connection to npm registry failed\<close>; one that has not settled after 15000 ms, or
  never settles, fails it with \<^verbatim>\<open>Connection to npm registry timed out\<close>; both are
  rejections with an \<open>Error\<close> that differ in the message only. A ping that succeeds in time
  lets the check succeed. (A ping that settles at 15000 ms sharp counts as too late.)
\<close>

theorem ping_registry_policy:
  assumes "module_exports V env input pkg opts = Inr (cs, ctx0)"
  shows "(skip (cs ! 0) ctx \<longleftrightarrow> truthy (pkg_private pkg) \<or> isExternalRegistry pkg = Inr True)
       \<and> enabled (cs ! 0) ctx
       \<and> (spawn env ''npm'' [''ping''] = Fails t m out err \<and> t < 15000 \<longrightarrow>
            action (cs ! 0) ctx = (Rejected (Error ''Connection to npm registry failed''), ctx))
       \<and> (spawn env ''npm'' [''ping''] = Never
            \<or> (settles_after env ''npm'' [''ping''] = Some t' \<and> 15000 \<le> t') \<longrightarrow>
            action (cs ! 0) ctx = (Rejected (Error ''Connection to npm registry timed out''), ctx))
       \<and> (spawn env ''npm'' [''ping''] = Exits_ok t'' out'' \<and> t'' < 15000 \<longrightarrow>
            action (cs ! 0) ctx = (Resolved (), ctx))
       \<and> fst (action (cs ! 0) ctx) \<noteq> Pending"
  using assms
  by (auto simp add: module_exports_def tasks_def ping_npm_registry_def pTimeout_def settled_def
      execa_stdout_def settles_after_def split: sum.splits process_run.splits if_splits)

text \<open>A registry that refuses after two seconds, one that answers after twenty, and one that
  never answers.\<close>

theorem ping_registry_policy_witness:
  "module_exports scenario_version
       (with_command ''npm'' [''ping''] (Fails 2000 ''Command failed: npm ping'' [] ''npm ERR!'') scenario_env)
       ''patch'' scenario_pkg scenario_opts
     = Inr (tasks scenario_version
              (with_command ''npm'' [''ping''] (Fails 2000 ''Command failed: npm ping'' [] ''npm ERR!'') scenario_env)
              ''patch'' scenario_pkg scenario_opts False, initial_context)
   \<and> \<not> skip (tasks scenario_version
              (with_command ''npm'' [''ping''] (Fails 2000 ''Command failed: npm ping'' [] ''npm ERR!'') scenario_env)
              ''patch'' scenario_pkg scenario_opts False ! 0) initial_context
   \<and> action (tasks scenario_version
              (with_command ''npm'' [''ping''] (Fails 2000 ''Command failed: npm ping'' [] ''npm ERR!'') scenario_env)
              ''patch'' scenario_pkg scenario_opts False ! 0) initial_context
       = (Rejected (Error ''Connection to npm registry failed''), initial_context)
   \<and> settles_after (with_command ''npm'' [''ping''] (Exits_ok 20000 []) scenario_env) ''npm'' [''ping'']
       = Some 20000
   \<and> action (tasks scenario_version
              (with_command ''npm'' [''ping''] (Exits_ok 20000 []) scenario_env)
              ''patch'' scenario_pkg scenario_opts False ! 0) initial_context
       = (Rejected (Error ''Connection to npm registry timed out''), initial_context)
   \<and> action (tasks scenario_version
              (with_command ''npm'' [''ping''] Never scenario_env)
              ''patch'' scenario_pkg scenario_opts False ! 0) initial_context
       = (Rejected (Error ''Connection to npm registry timed out''), initial_context)"
  using ping_registry_policy [of scenario_version
      "with_command ''npm'' [''ping''] (Fails 2000 ''Command failed: npm ping'' [] ''npm ERR!'') scenario_env"
      "''patch''" scenario_pkg scenario_opts _ initial_context initial_context
      2000 "''Command failed: npm ping''" "[]" "''npm ERR!''"]
    ping_registry_policy [of scenario_version
      "with_command ''npm'' [''ping''] (Exits_ok 20000 []) scenario_env"
      "''patch''" scenario_pkg scenario_opts _ initial_context initial_context _ _ _ _ 20000]
    ping_registry_policy [of scenario_version
      "with_command ''npm'' [''ping''] Never scenario_env"
      "''patch''" scenario_pkg scenario_opts _ initial_context initial_context]
  by (simp add: scenario_defs module_exports_def isExternalRegistry_def settles_after_def)

section \<open>Check npm version\<close>

text \<open>
  The sixth check is always enabled, and its skip gate is the oracle's answer to
  \<^verbatim>\<open>isVersionLower('6.0.0', process.version)\<close> (line 73). Which runtime versions that
  answer holds for is decided in \<^verbatim>\<open>./version\<close>, of which only the signature is known.
\<close>

lemma npm_version_skip_gate:
  "skip (tasks V env input pkg opts external ! 5) ctx
     = isVersionLower V ''6.0.0'' (process_version env)
   \<and> enabled (tasks V env input pkg opts external ! 5) ctx"
  by (simp add: tasks_def)

section \<open>Constructing the pipeline\<close>

text \<open>No built-in prototype has a member named \<^verbatim>\<open>registry\<close>.\<close>

lemma registry_not_inherited: "inherited kind ''registry'' = JUndefined"
  by (cases kind)
    (simp_all add: inherited_def object_prototype_keys_def array_prototype_keys_def
      string_prototype_keys_def number_prototype_keys_def)

text \<open>
  C10. When \<^verbatim>\<open>pkg.publishConfig\<close> is \<^verbatim>\<open>null\<close>, computing \<^verbatim>\<open>isExternalRegistry\<close> throws a
  TypeError and the exported function returns no task list. When it is \<^verbatim>\<open>undefined\<close> the
  function returns the task list with \<^verbatim>\<open>isExternalRegistry\<close> false; when it is an object,
  with \<^verbatim>\<open>isExternalRegistry\<close> true exactly if its \<^verbatim>\<open>registry\<close> property is a string; an
  array has no such property. In each of these cases \<^verbatim>\<open>newVersion\<close> starts as \<^verbatim>\<open>null\<close>
  and \<^verbatim>\<open>tagPrefix\<close> as \<^verbatim>\<open>v\<close>.
\<close>

theorem module_exports_publishConfig:
  "(pkg_publishConfig pkg = JNull \<longrightarrow>
      isExternalRegistry pkg = Inl TypeError
      \<and> module_exports V env input pkg opts = Inl TypeError)
   \<and> (pkg_publishConfig pkg = JUndefined \<longrightarrow>
        module_exports V env input pkg opts =
          Inr (tasks V env input pkg opts False, \<lparr>newVersion = None, tagPrefix = ''v''\<rparr>))
   \<and> (pkg_publishConfig pkg = JObject kvs \<longrightarrow>
        module_exports V env input pkg opts =
          Inr (tasks V env input pkg opts
                 (case map_of kvs ''registry'' of Some (JString s) \<Rightarrow> True | _ \<Rightarrow> False),
               \<lparr>newVersion = None, tagPrefix = ''v''\<rparr>))
   \<and> (pkg_publishConfig pkg = JArray xs \<longrightarrow>
        module_exports V env input pkg opts =
          Inr (tasks V env input pkg opts False, \<lparr>newVersion = None, tagPrefix = ''v''\<rparr>))"
  by (auto simp add: module_exports_def isExternalRegistry_def array_index_def is_digit_def
      registry_not_inherited split: option.splits js_value.splits)

text \<open>A descriptor with \<^verbatim>\<open>publishConfig: null\<close>, the one of the concrete run (no
  \<^verbatim>\<open>publishConfig\<close>), and one that names a registry.\<close>

theorem module_exports_publishConfig_witness:
  "module_exports scenario_version scenario_env ''patch''
       (scenario_pkg\<lparr>pkg_publishConfig := JNull\<rparr>) scenario_opts = Inl TypeError
   \<and> module_exports scenario_version scenario_env ''patch'' scenario_pkg scenario_opts
       = Inr (tasks scenario_version scenario_env ''patch'' scenario_pkg scenario_opts False,
              initial_context)
   \<and> module_exports scenario_version scenario_env ''patch''
       (scenario_pkg\<lparr>pkg_publishConfig := JObject [(''registry'', JString ''https://registry.example.org/'')]\<rparr>)
       scenario_opts
       = Inr (tasks scenario_version scenario_env ''patch''
                (scenario_pkg\<lparr>pkg_publishConfig := JObject [(''registry'', JString ''https://registry.example.org/'')]\<rparr>)
                scenario_opts True,
              initial_context)"
  using module_exports_publishConfig [of "scenario_pkg\<lparr>pkg_publishConfig := JNull\<rparr>"
      scenario_version scenario_env "''patch''" scenario_opts]
    module_exports_publishConfig [of scenario_pkg scenario_version scenario_env "''patch''"
      scenario_opts]
    module_exports_publishConfig [of
      "scenario_pkg\<lparr>pkg_publishConfig := JObject [(''registry'', JString ''https://registry.example.org/'')]\<rparr>"
      scenario_version scenario_env "''patch''" scenario_opts
      "[(''registry'', JString ''https://registry.example.org/'')]"]
  by (simp add: scenario_pkg_def initial_context_def)

section \<open>Gates and the shared version\<close>

text \<open>
  C5. Take any list of checks and any check \<open>c\<close> in it, reached after the checks before it
  have succeeded. If \<^verbatim>\<open>skip\<close> holds of \<open>c\<close> there, or \<^verbatim>\<open>enabled\<close> fails, the run is the
  run of the list without \<open>c\<close>: the same outcome, the same final context, the same
  invocations, none of them of \<open>c\<close>. In particular the run does not depend on the action
  of \<open>c\<close>, which is never invoked, and \<open>c\<close> adds no failure.
\<close>

theorem skipped_check_never_runs:
  assumes "outcome (run pre ctx) = Some Success"
    and "skip c (final (run pre ctx)) \<or> \<not> enabled c (final (run pre ctx))"
  shows "run (pre @ c # post) ctx = run (pre @ post) ctx
       \<and> run (pre @ c\<lparr>action := a\<rparr> # post) ctx = run (pre @ c # post) ctx"
  using assms by (auto simp add: run_append)

text \<open>The concrete run without a request to publish: the first four checks succeed, the fifth
  is not enabled, and the run is that of the other six.\<close>

theorem skipped_check_never_runs_witness:
  "outcome (run (take 4 (scenario_tasks (scenario_opts\<lparr>opt_publish := JBool False\<rparr>)))
              initial_context) = Some Success
   \<and> final (run (take 4 (scenario_tasks (scenario_opts\<lparr>opt_publish := JBool False\<rparr>)))
              initial_context) = validated_context
   \<and> \<not> enabled (scenario_tasks (scenario_opts\<lparr>opt_publish := JBool False\<rparr>) ! 4) validated_context
   \<and> run (take 4 (scenario_tasks (scenario_opts\<lparr>opt_publish := JBool False\<rparr>))
           @ scenario_tasks (scenario_opts\<lparr>opt_publish := JBool False\<rparr>) ! 4
           # drop 5 (scenario_tasks (scenario_opts\<lparr>opt_publish := JBool False\<rparr>)))
          initial_context
     = run (take 4 (scenario_tasks (scenario_opts\<lparr>opt_publish := JBool False\<rparr>))
           @ drop 5 (scenario_tasks (scenario_opts\<lparr>opt_publish := JBool False\<rparr>)))
          initial_context"
proof -
  let ?T = "scenario_tasks (scenario_opts\<lparr>opt_publish := JBool False\<rparr>)"
  have four: "run (take 4 ?T) initial_context
      = \<lparr>outcome = Some Success, final = validated_context,
         invoked = [(''Ping npm registry'', initial_context),
                    (''Verify user is authenticated'', initial_context),
                    (''Check git remote'', initial_context),
                    (''Validate version'', initial_context)]\<rparr>"
    by (simp add: scenario_tasks_def tasks_def scenario_defs settled_def ping_npm_registry_def
        pTimeout_def execa_stdout_def settles_after_def verify_user_authenticated_def
        check_collaborators_def check_git_remote_def validate_version_def Let_def)
  have gate: "\<not> enabled (?T ! 4) validated_context"
    by (simp add: scenario_tasks_def tasks_def scenario_defs)
  from four have ok: "outcome (run (take 4 ?T) initial_context) = Some Success" by simp
  from four gate
  have excluded: "skip (?T ! 4) (final (run (take 4 ?T) initial_context))
      \<or> \<not> enabled (?T ! 4) (final (run (take 4 ?T) initial_context))" by simp
  from skipped_check_never_runs [OF ok excluded, of "drop 5 ?T"] four gate
  show ?thesis by simp
qed

text \<open>What the checks do to \<^verbatim>\<open>newVersion\<close>.\<close>

lemma check_git_tag_existence_newVersion:
  "newVersion (snd (check_git_tag_existence env opts ctx)) = newVersion ctx"
  by (simp add: check_git_tag_existence_def resolve_tag_prefix_def
      split: option.splits promise.splits)

lemma validate_version_newVersion:
  "newVersion (snd (validate_version V input pkg ctx)) =
     (if isValidVersionInput V input then Some (getNewVersion V (pkg_version pkg) input)
      else newVersion ctx)"
  by (simp add: validate_version_def Let_def)

lemma validate_version_success:
  assumes "outcome (run (pre @ [\<lparr>title = t, skip = (\<lambda>ctx. False), enabled = (\<lambda>ctx. True),
                                action = validate_version V input pkg\<rparr>]) ctx) = Some Success"
  shows "newVersion (final (run (pre @ [\<lparr>title = t, skip = (\<lambda>ctx. False), enabled = (\<lambda>ctx. True),
                                action = validate_version V input pkg\<rparr>]) ctx))
           = Some (getNewVersion V (pkg_version pkg) input)
         \<and> isValidVersionInput V input
         \<and> isVersionGreater V (pkg_version pkg) (getNewVersion V (pkg_version pkg) input)"
  using assms
  by (auto simp add: run_append validate_version_def Let_def split: if_splits)

text \<open>
  C6. For the task list and the initial context that the exported function returns:
  \<^verbatim>\<open>newVersion\<close> starts unset; whenever the action of the pre-release check or of the
  tag-existence check is invoked, the context it sees holds
  \<^verbatim>\<open>getNewVersion(pkg.version, input)\<close>, and the version check had succeeded (the input
  was valid and the new version greater); no check but \<^verbatim>\<open>Validate version\<close> changes
  \<^verbatim>\<open>newVersion\<close>; that check is invoked at most once in a run; and at the end
  \<^verbatim>\<open>newVersion\<close> is either still unset or that one value.
\<close>

theorem newVersion_set_before_read:
  assumes "module_exports V env input pkg opts = Inr (cs, ctx0)"
  shows "newVersion ctx0 = None
       \<and> (\<forall>e \<in> set (invoked (run cs ctx0)).
            fst e = ''Check for pre-release version'' \<or> fst e = ''Check git tag existence'' \<longrightarrow>
              newVersion (snd e) = Some (getNewVersion V (pkg_version pkg) input)
              \<and> isValidVersionInput V input
              \<and> isVersionGreater V (pkg_version pkg) (getNewVersion V (pkg_version pkg) input))
       \<and> (\<forall>c \<in> set cs. title c \<noteq> ''Validate version'' \<longrightarrow>
            (\<forall>ctx. newVersion (snd (action c ctx)) = newVersion ctx))
       \<and> length (filter (\<lambda>e. fst e = ''Validate version'') (invoked (run cs ctx0))) \<le> 1
       \<and> (newVersion (final (run cs ctx0)) = None
            \<or> newVersion (final (run cs ctx0)) = Some (getNewVersion V (pkg_version pkg) input))"
proof -
  define nv where "nv = getNewVersion V (pkg_version pkg) input"
  from assms obtain external where cs: "cs = tasks V env input pkg opts external"
    and ctx0: "ctx0 = \<lparr>newVersion = None, tagPrefix = ''v''\<rparr>"
    by (auto simp add: module_exports_def split: sum.splits)
  define A where "A = take 4 cs"
  define B where "B = drop 4 cs"
  have AB: "cs = A @ B" by (simp add: A_def B_def)
  have A_titles: "title ` set A = {''Ping npm registry'', ''Verify user is authenticated'',
      ''Check git remote'', ''Validate version''}"
    by (auto simp add: A_def cs tasks_def)
  have A_last: "A = take 3 cs @ [\<lparr>title = ''Validate version'', skip = (\<lambda>ctx. False),
      enabled = (\<lambda>ctx. True), action = validate_version V input pkg\<rparr>]"
    by (simp add: A_def cs tasks_def)
  have A_success: "newVersion (final (run A ctx0)) = Some nv \<and> isValidVersionInput V input
      \<and> isVersionGreater V (pkg_version pkg) nv" if "outcome (run A ctx0) = Some Success"
    using that validate_version_success [of "take 3 cs" _ V input pkg ctx0]
    unfolding A_last nv_def by simp
  have others: "newVersion (snd (action c ctx)) = newVersion ctx"
    if "c \<in> set cs" "title c \<noteq> ''Validate version''" for c ctx
    using that by (auto simp add: cs tasks_def check_git_tag_existence_newVersion)
  have B_keeps: "newVersion (snd (action c x)) = Some nv"
    if "c \<in> set B" "newVersion x = Some nv" for c x
    using that by (auto simp add: B_def cs tasks_def check_git_tag_existence_newVersion)
  have all_keep: "newVersion x = None \<or> newVersion x = Some nv
      \<Longrightarrow> newVersion (snd (action c x)) = None \<or> newVersion (snd (action c x)) = Some nv"
    if "c \<in> set cs" for c x
    using that
    by (auto simp add: cs tasks_def check_git_tag_existence_newVersion
        validate_version_newVersion nv_def split: if_splits)
  have readers: "newVersion (snd e) = Some nv \<and> isValidVersionInput V input
      \<and> isVersionGreater V (pkg_version pkg) nv"
    if e: "e \<in> set (invoked (run cs ctx0))"
      and later: "fst e = ''Check for pre-release version'' \<or> fst e = ''Check git tag existence''"
    for e
  proof (cases "e \<in> set (invoked (run A ctx0))")
    case True
    then have "fst e \<in> title ` set A" using run_invoked_titles [of A ctx0] by auto
    with later show ?thesis unfolding A_titles by auto
  next
    case False
    with e have ok: "outcome (run A ctx0) = Some Success"
      and eB: "e \<in> set (invoked (run B (final (run A ctx0))))"
      unfolding AB by (auto simp add: run_append split: if_splits)
    from run_invariant [of B "\<lambda>x. newVersion x = Some nv" "final (run A ctx0)"] B_keeps
      A_success [OF ok] eB
    have "newVersion (snd e) = Some nv" by blast
    with A_success [OF ok] show ?thesis by simp
  qed
  have fin: "newVersion (final (run cs ctx0)) = None \<or> newVersion (final (run cs ctx0)) = Some nv"
    using run_invariant [of cs "\<lambda>x. newVersion x = None \<or> newVersion x = Some nv" ctx0] all_keep
    by (simp add: ctx0)
  have once: "length (filter (\<lambda>e. fst e = ''Validate version'') (invoked (run cs ctx0))) \<le> 1"
    using run_invoked_count [of "''Validate version''" cs ctx0] by (simp add: cs tasks_def)
  show ?thesis
    using readers others fin once unfolding nv_def by (simp add: ctx0)
qed

text \<open>The concrete run: all seven checks are invoked, and the two readers see version 1.2.4.\<close>

theorem newVersion_set_before_read_witness:
  "module_exports scenario_version scenario_env ''patch'' scenario_pkg scenario_opts
     = Inr (scenario_tasks scenario_opts, initial_context)
   \<and> (''Check for pre-release version'', validated_context)
       \<in> set (invoked (run (scenario_tasks scenario_opts) initial_context))
   \<and> (''Check git tag existence'', validated_context)
       \<in> set (invoked (run (scenario_tasks scenario_opts) initial_context))
   \<and> newVersion validated_context
       = Some (getNewVersion scenario_version (pkg_version scenario_pkg) ''patch'')
   \<and> outcome (run (scenario_tasks scenario_opts) initial_context) = Some Success"
proof -
  have built: "module_exports scenario_version scenario_env ''patch'' scenario_pkg scenario_opts
     = Inr (scenario_tasks scenario_opts, initial_context)"
    by (simp add: module_exports_def isExternalRegistry_def scenario_tasks_def scenario_pkg_def
        initial_context_def)
  have ran: "run (scenario_tasks scenario_opts) initial_context
      = \<lparr>outcome = Some Success, final = validated_context,
         invoked = [(''Ping npm registry'', initial_context),
                    (''Verify user is authenticated'', initial_context),
                    (''Check git remote'', initial_context),
                    (''Validate version'', initial_context),
                    (''Check for pre-release version'', validated_context),
                    (''Check npm version'', validated_context),
                    (''Check git tag existence'', validated_context)]\<rparr>"
    by (simp add: scenario_tasks_def tasks_def scenario_defs settled_def ping_npm_registry_def
        pTimeout_def execa_stdout_def settles_after_def verify_user_authenticated_def
        check_collaborators_def check_git_remote_def validate_version_def Let_def
        check_prerelease_version_def check_npm_version_def check_git_tag_existence_def
        resolve_tag_prefix_def lookup_git_tag_def tag_ref_def)
  have reads: "newVersion validated_context
      = Some (getNewVersion scenario_version (pkg_version scenario_pkg) ''patch'')"
    by (simp add: scenario_defs)
  from newVersion_set_before_read [OF built]
  have "newVersion initial_context = None" by simp
  with built ran reads show ?thesis by simp
qed

end
